theory Spec2Isabelle
  imports Main "HOL-Library.Sublist"
begin

section \<open>Python values and exceptions\<close>

text \<open>
  A Python \<open>str\<close> is modelled as a \<^typ>\<open>string\<close> whose characters are the code points
  below 256. Among these the decimal digits of \<open>\d\<close> and \<open>int()\<close> are \<open>0\<close> to \<open>9\<close>, and
  the white space of \<open>\s\<close> and \<open>str.strip()\<close> is the set given by \<open>is_space\<close> below.
  Case mapping is modelled on the ASCII letters; every key that the program compares a
  case-mapped string with is ASCII.

  An f-string message is kept as a constructor (the template) applied to the values
  that the source interpolates; an interpolated exception \<open>{e}\<close> is kept as the
  exception itself.
\<close>

datatype value_msg =
    Label_not_found string
      \<comment> \<open>\<open>f"[ERREUR] champ '{label}' introuvable dans le tableau"\<close>\<close>
  | Not_a_float string
      \<comment> \<open>the message of \<open>float(s)\<close> on a string that is not a number\<close>
  | Exceeds_digit_limit nat nat
      \<comment> \<open>the message of \<open>int(s)\<close> on a string with more digits than the limit: the limit
          and the number of digits\<close>

datatype perm_msg =
    Os_denied string
      \<comment> \<open>raised by the operating system, with its text\<close>
  | File_in_use string
      \<comment> \<open>\<open>f"[ERREUR] Le fichier est deja ouvert ailleurs (ex: Excel). Ferme-le pour
          pouvoir sauvegarder : {csv_path}"\<close>\<close>

datatype py_exception =
    RequestException string
      \<comment> \<open>a \<open>requests.exceptions.RequestException\<close> of the transport, with its text\<close>
  | HTTPError nat
      \<comment> \<open>what \<open>raise_for_status()\<close> raises for this status code; a \<open>RequestException\<close>\<close>
  | AttributeError
      \<comment> \<open>an attribute or a method of \<open>None\<close>\<close>
  | TypeError
      \<comment> \<open>a subscript of \<open>None\<close>\<close>
  | KeyError string
      \<comment> \<open>an attribute that a tag does not have\<close>
  | IndexError
  | ValueError value_msg
  | OSError string
  | PermissionError perm_msg
  | RuntimeError runtime_msg
and runtime_msg =
    Fetch_failed string py_exception
      \<comment> \<open>\<open>f"[ERREUR] Echec lors de la recuperation de l'URL : {url}\n-> {e}"\<close>\<close>
  | Extract_failed string py_exception
      \<comment> \<open>\<open>f"[ERREUR] Echec de l'extraction depuis {url} : {e}"\<close>\<close>
  | Http_failed string py_exception
      \<comment> \<open>\<open>f"[ERREUR HTTP] Impossible de recuperer la page {current_url} : {e}"\<close>\<close>
  | No_article string
      \<comment> \<open>\<open>f"[ERREUR PARSING] Aucun article trouve sur la page : {current_url}"\<close>\<close>

text \<open>\<open>isinstance(e, requests.exceptions.RequestException)\<close>\<close>

fun is_RequestException :: "py_exception \<Rightarrow> bool" where
  "is_RequestException (RequestException _) = True"
| "is_RequestException (HTTPError _) = True"
| "is_RequestException _ = False"

text \<open>\<open>isinstance(e, PermissionError)\<close>\<close>

fun is_PermissionError :: "py_exception \<Rightarrow> bool" where
  "is_PermissionError (PermissionError _) = True"
| "is_PermissionError _ = False"

text \<open>Sequencing of statements that may raise: the first exception ends the block.\<close>

definition and_then :: "'e + 'a \<Rightarrow> ('a \<Rightarrow> 'e + 'b) \<Rightarrow> 'e + 'b" where
  "and_then r f = (case r of Inl e \<Rightarrow> Inl e | Inr x \<Rightarrow> f x)"

text \<open>A value that is an \<open>int\<close> on one path and a \<open>str\<close> on another.\<close>

datatype py_value = PyInt int | PyStr string

section \<open>String operations of the standard library\<close>

definition is_digit :: "char \<Rightarrow> bool" where
  "is_digit c = (48 \<le> (of_char c :: nat) \<and> (of_char c :: nat) \<le> 57)"

definition is_space :: "char \<Rightarrow> bool" where
  "is_space c = ((of_char c :: nat) \<in> {9, 10, 11, 12, 13, 28, 29, 30, 31, 32, 133, 160})"

definition digit_value :: "char \<Rightarrow> int" where
  "digit_value c = int (of_char c) - 48"

text \<open>The integer that a string of decimal digits denotes. Python integers have no bound.\<close>

definition int_of_digits :: "string \<Rightarrow> int" where
  "int_of_digits ds = foldl (\<lambda>n c. 10 * n + digit_value c) 0 ds"

text \<open>
  \<open>int(s)\<close> on a string of decimal digits. \<open>int_max_str_digits\<close> is the setting
  \<open>sys.get_int_max_str_digits()\<close> of the interpreter: 4300 unless it is changed, and 0
  for no limit (as in the interpreters that do not have the setting). With a limit,
  \<open>int\<close> raises a \<open>ValueError\<close> for a string of more digits; leading zeros count.
\<close>

definition py_int :: "nat \<Rightarrow> string \<Rightarrow> py_exception + int" where
  "py_int int_max_str_digits ds =
     (if 0 < int_max_str_digits \<and> int_max_str_digits < length ds
      then Inl (ValueError (Exceeds_digit_limit int_max_str_digits (length ds)))
      else Inr (int_of_digits ds))"

definition py_upper :: "char \<Rightarrow> char" where
  "py_upper c = (if 97 \<le> (of_char c :: nat) \<and> (of_char c :: nat) \<le> 122
                 then char_of ((of_char c :: nat) - 32) else c)"

definition py_lower :: "char \<Rightarrow> char" where
  "py_lower c = (if 65 \<le> (of_char c :: nat) \<and> (of_char c :: nat) \<le> 90
                 then char_of ((of_char c :: nat) + 32) else c)"

text \<open>\<open>s.capitalize()\<close>: the first character in upper case, the others in lower case.\<close>

fun capitalize :: "string \<Rightarrow> string" where
  "capitalize [] = []"
| "capitalize (c # cs) = py_upper c # map py_lower cs"

text \<open>\<open>s.strip()\<close>\<close>

definition strip :: "string \<Rightarrow> string" where
  "strip s = rev (dropWhile is_space (rev (dropWhile is_space s)))"

text \<open>
  \<open>s.replace(old, new)\<close>: the occurrences of \<open>old\<close> are replaced from the left, and the
  search goes on after each replaced occurrence. For an empty \<open>old\<close>, \<open>new\<close> is put
  before every character and at the end.
\<close>

function replace_from :: "string \<Rightarrow> string \<Rightarrow> string \<Rightarrow> string" where
  "replace_from old new [] = []"
| "replace_from old new (c # cs) =
     (if old \<noteq> [] \<and> prefix old (c # cs)
      then new @ replace_from old new (drop (length old) (c # cs))
      else c # replace_from old new cs)"
  by pat_completeness auto
termination
  by (relation "measure (\<lambda>(old, new, s). length s)") (auto simp: Suc_le_eq)

definition replace :: "string \<Rightarrow> string \<Rightarrow> string \<Rightarrow> string" where
  "replace s old new =
     (if old = [] then new @ concat (map (\<lambda>c. c # new) s) else replace_from old new s)"

text \<open>
  \<open>re.search(r'\((\d+)\s+available\)', s)\<close>, giving group 1 of the match.

  \<open>match_here\<close> matches the pattern at the start of its argument. The two repetitions
  are greedy, and no shorter repetition can lead to a match that the longest one misses:
  what follows \<open>\d+\<close> has to be white space, which is no digit, and what follows \<open>\s+\<close>
  has to be the letter \<open>a\<close>, which is no white space. \<open>re_search\<close> tries the start
  positions from the left, as \<open>re.search\<close> does.
\<close>

definition match_here :: "string \<Rightarrow> string option" where
  "match_here s =
     (case s of
        [] \<Rightarrow> None
      | c # r \<Rightarrow>
          if c = CHR ''(''
          then let ds = takeWhile is_digit r;
                   r1 = dropWhile is_digit r;
                   ws = takeWhile is_space r1;
                   r2 = dropWhile is_space r1
               in if ds \<noteq> [] \<and> ws \<noteq> [] \<and> prefix ''available)'' r2 then Some ds else None
          else None)"

fun re_search :: "string \<Rightarrow> string option" where
  "re_search [] = None"
| "re_search (c # cs) =
     (case match_here (c # cs) of Some ds \<Rightarrow> Some ds | None \<Rightarrow> re_search cs)"

section \<open>Responses and parsed documents\<close>

text \<open>
  A response of the transport: its status code, and its body decoded as UTF-8 (both
  fetch routines set \<open>response.encoding = 'utf-8'\<close> before they read \<open>response.text\<close>).
\<close>

record response =
  status_code :: nat
  text_utf8 :: string

text \<open>
  A parsed document is modelled by what the queries of the program find in it. A
  \<open>find\<close> that gives \<open>None\<close> is \<^term>\<open>None\<close>; under \<^term>\<open>Some\<close> stands what the program
  reads next from the tag found.
\<close>

type_synonym article = "string option option option"
  \<comment> \<open>\<open>article.find('h3')\<close>, in it \<open>find('a')\<close>, of it the attribute \<open>href\<close>\<close>

record soup =
  find_table :: "(string \<times> string option) list option"
    \<comment> \<open>\<open>find('table', class_='table table-striped')\<close>: its \<open>th\<close> cells in document
        order, each with its string and the text of its next \<open>td\<close> sibling, if any\<close>
  find_product_main :: "string option option"
    \<comment> \<open>\<open>find('div', class_="col-sm-6 product_main")\<close>, in it \<open>find('h1')\<close>, its text\<close>
  find_product_description :: "string option option"
    \<comment> \<open>\<open>find('div', id='product_description')\<close>, its next \<open>p\<close> sibling, its text\<close>
  find_star_rating :: "string list option"
    \<comment> \<open>\<open>find('p', class_='star-rating')\<close>, its class list\<close>
  find_breadcrumb :: "string list option"
    \<comment> \<open>\<open>find('ul', class_='breadcrumb')\<close>, the texts of its \<open>li\<close> in document order\<close>
  find_item :: "string option option option"
    \<comment> \<open>\<open>find('div', class_='item')\<close>, in it \<open>find('img')\<close>, of it the attribute \<open>src\<close>\<close>
  find_all_product_pod :: "article list"
    \<comment> \<open>\<open>find_all('article', class_='product_pod')\<close>\<close>
  find_next :: "string option option option"
    \<comment> \<open>\<open>find('li', class_='next')\<close>, in it \<open>find('a')\<close>, of it the attribute \<open>href\<close>\<close>

text \<open>\<open>tag.find(name)[key]\<close> for a tag that is there: \<open>find\<close> may give \<open>None\<close>.\<close>

fun find_subscript :: "string option option \<Rightarrow> string \<Rightarrow> py_exception + string" where
  "find_subscript None key = Inl TypeError"
| "find_subscript (Some None) key = Inl (KeyError key)"
| "find_subscript (Some (Some v)) key = Inr v"

section \<open>Phase 1: one product page (\<open>phase1/scraper.py\<close>)\<close>


text \<open>The record that \<open>extract_book_data\<close> builds; \<open>'f\<close> is the type of a Python \<open>float\<close>.\<close>

record 'f book_data =
  product_page_url :: string
  universal_product_code :: string
  title :: string
  price_including_tax :: 'f
  price_excluding_tax :: 'f
  number_available :: py_value
  product_description :: string
  category :: string
  review_rating :: int
  image_url :: string

text \<open>The inner function \<open>get_table_value(label)\<close>, with the \<open>table\<close> it closes over.\<close>

definition get_table_value ::
  "(string \<times> string option) list option \<Rightarrow> string \<Rightarrow> py_exception + string"
where
  "get_table_value table label =
     (case table of
        None \<Rightarrow> Inl AttributeError
      | Some rows \<Rightarrow>
          (case find (\<lambda>(th, td). th = label) rows of
             None \<Rightarrow> Inl (ValueError (Label_not_found label))
           | Some (th, td) \<Rightarrow> Inr (case td of Some text \<Rightarrow> text | None \<Rightarrow> ''N/A'')))"

text \<open>
  Lines 80 and 81: the count of the availability cell, or the sentinel. Where the
  pattern matches, \<open>int(match.group(1))\<close> is evaluated and may raise.
\<close>

definition not_found_sentinel :: string where
  "not_found_sentinel = ''Nombre non trouv'' @ [char_of (233 :: nat)]"

definition number_available_of :: "nat \<Rightarrow> string \<Rightarrow> py_exception + py_value" where
  "number_available_of int_max_str_digits availability =
     (case re_search availability of
        Some digits \<Rightarrow> and_then (py_int int_max_str_digits digits) (\<lambda>n. Inr (PyInt n))
      | None \<Rightarrow> Inr (PyStr not_found_sentinel))"

text \<open>Lines 86 to 90: the rating, from the class list of the marker.\<close>

definition review_rating_map :: "string \<rightharpoonup> int" where
  "review_rating_map =
     [''Zero'' \<mapsto> 0, ''One'' \<mapsto> 1, ''Two'' \<mapsto> 2, ''Three'' \<mapsto> 3, ''Four'' \<mapsto> 4, ''Five'' \<mapsto> 5]"

definition review_rating_of :: "string list option \<Rightarrow> int" where
  "review_rating_of review_rating_tag =
     (let review_rating_classes = (case review_rating_tag of Some classes \<Rightarrow> classes | None \<Rightarrow> []);
          review_rating_text =
            (case filter (\<lambda>cls. cls \<noteq> ''star-rating'') review_rating_classes of
               cls # _ \<Rightarrow> capitalize cls
             | [] \<Rightarrow> ''Zero'')
      in case review_rating_map review_rating_text of Some n \<Rightarrow> n | None \<Rightarrow> 0)"

text \<open>\<open>float(s.replace(pound, ''))\<close>; \<open>py_float\<close> is \<open>float\<close>, \<^term>\<open>None\<close> where it raises.\<close>

definition pound :: string where
  "pound = [char_of (163 :: nat)]"

definition price_of :: "(string \<Rightarrow> 'f option) \<Rightarrow> string \<Rightarrow> py_exception + 'f" where
  "price_of py_float s =
     (case py_float (replace s pound []) of
        Some x \<Rightarrow> Inr x
      | None \<Rightarrow> Inl (ValueError (Not_a_float (replace s pound []))))"

text \<open>
  The body of the \<open>try\<close> block of \<open>extract_book_data\<close>, in the order in which Python
  evaluates it. \<open>urljoin\<close> is \<open>urllib.parse.urljoin\<close>, and \<open>int_max_str_digits\<close> is the
  setting of the interpreter that \<open>int\<close> reads.
\<close>

definition extract_book_data_try ::
  "nat \<Rightarrow> (string \<Rightarrow> 'f option) \<Rightarrow> (string \<Rightarrow> string \<Rightarrow> string) \<Rightarrow> soup \<Rightarrow> string
     \<Rightarrow> py_exception + 'f book_data"
where
  "extract_book_data_try int_max_str_digits py_float urljoin soup url =
     (let table = find_table soup in
      and_then (case find_product_main soup of
                  None \<Rightarrow> Inl AttributeError
                | Some None \<Rightarrow> Inl AttributeError
                | Some (Some text) \<Rightarrow> Inr text) (\<lambda>title.
      and_then (get_table_value table ''Availability'') (\<lambda>availability.
      and_then (number_available_of int_max_str_digits availability) (\<lambda>number_available.
      let product_description =
            (case find_product_description soup of
               Some (Some text) \<Rightarrow> text
             | _ \<Rightarrow> ''N/A'');
          review_rating = review_rating_of (find_star_rating soup)
      in
      and_then (get_table_value table ''UPC'') (\<lambda>upc.
      and_then (and_then (get_table_value table ''Price (incl. tax)'') (price_of py_float))
        (\<lambda>price_incl.
      and_then (and_then (get_table_value table ''Price (excl. tax)'') (price_of py_float))
        (\<lambda>price_excl.
      and_then (case find_breadcrumb soup of
                  None \<Rightarrow> Inl AttributeError
                | Some lis \<Rightarrow> if 2 < length lis then Inr (strip (lis ! 2)) else Inl IndexError)
        (\<lambda>category.
      and_then (case find_item soup of
                  None \<Rightarrow> Inl AttributeError
                | Some img \<Rightarrow> find_subscript img ''src'') (\<lambda>src.
      Inr \<lparr> product_page_url = url,
            universal_product_code = upc,
            title = title,
            price_including_tax = price_incl,
            price_excluding_tax = price_excl,
            number_available = number_available,
            product_description = product_description,
            category = category,
            review_rating = review_rating,
            image_url = urljoin url src \<rparr>)))))))))"

text \<open>\<open>extract_book_data(soup, url)\<close>: every exception of the body is wrapped.\<close>

definition extract_book_data ::
  "nat \<Rightarrow> (string \<Rightarrow> 'f option) \<Rightarrow> (string \<Rightarrow> string \<Rightarrow> string) \<Rightarrow> soup \<Rightarrow> string
     \<Rightarrow> py_exception + 'f book_data"
where
  "extract_book_data int_max_str_digits py_float urljoin soup url =
     (case extract_book_data_try int_max_str_digits py_float urljoin soup url of
        Inr product_data \<Rightarrow> Inr product_data
      | Inl e \<Rightarrow> Inl (RuntimeError (Extract_failed url e)))"

section \<open>Phase 2: the pages of a category (\<open>phase2/scraper_category.py\<close>)\<close>

text \<open>
  The session is an object with a state of its own: \<open>session_get\<close> is
  \<open>session.get(current_url, timeout=10)\<close> as a function of that state \<open>'w\<close> (which
  stands for the site as well) and of the URL, giving a response or the exception it
  raises, and the state after the request. The messages that the loop prints are left
  out of the model.

  The module imports the name \<open>DATE_TODAY\<close> from \<open>phase1.scraper\<close>, which does not
  define it (\<open>utils/saver.py\<close> does). The functions are modelled as they are written;
  the date is a parameter of the writers below.
\<close>

definition catalogue_root :: string where
  "catalogue_root = ''https://books.toscrape.com/catalogue/''"

text \<open>Lines 57 and 58, for one article.\<close>

definition article_url :: "article \<Rightarrow> py_exception + string" where
  "article_url article =
     (case article of
        None \<Rightarrow> Inl AttributeError
      | Some a \<Rightarrow>
          and_then (find_subscript a ''href'') (\<lambda>href.
          let relative_url = replace href ''../'' [] in Inr (catalogue_root @ relative_url)))"

text \<open>The \<open>for\<close> loop: an article whose link cannot be read is skipped.\<close>

fun collect_urls :: "article list \<Rightarrow> string list" where
  "collect_urls [] = []"
| "collect_urls (article # articles) =
     (case article_url article of
        Inr full_url \<Rightarrow> full_url # collect_urls articles
      | Inl e \<Rightarrow> collect_urls articles)"

text \<open>\<open>response.raise_for_status()\<close> raises for the status codes from 400 to 599.\<close>

definition raise_for_status :: "response \<Rightarrow> py_exception + unit" where
  "raise_for_status response =
     (if 400 \<le> status_code response \<and> status_code response < 600
      then Inl (HTTPError (status_code response)) else Inr ())"

text \<open>
  One turn of the \<open>while True\<close> loop: an exception, or the URLs that the turn appends
  together with the URL of the next page (\<^term>\<open>None\<close> for \<open>break\<close>).
\<close>

definition crawl_page ::
  "('w \<Rightarrow> string \<Rightarrow> (py_exception + response) \<times> 'w) \<Rightarrow> (string \<Rightarrow> soup)
     \<Rightarrow> (string \<Rightarrow> string \<Rightarrow> string) \<Rightarrow> 'w \<Rightarrow> string
     \<Rightarrow> (py_exception + string list \<times> string option) \<times> 'w"
where
  "crawl_page session_get html_parser urljoin w current_url =
     (case session_get w current_url of
        (got, w') \<Rightarrow>
          (case and_then got (\<lambda>response. and_then (raise_for_status response) (\<lambda>_. Inr response)) of
             Inl e \<Rightarrow>
               (Inl (if is_RequestException e
                     then RuntimeError (Http_failed current_url e) else e), w')
           | Inr response \<Rightarrow>
               (let soup = html_parser (text_utf8 response);
                    articles = find_all_product_pod soup
                in if articles = [] then Inl (RuntimeError (No_article current_url))
                   else (case find_next soup of
                           None \<Rightarrow> Inr (collect_urls articles, None)
                         | Some a \<Rightarrow>
                             and_then (find_subscript a ''href'') (\<lambda>next_page.
                             Inr (collect_urls articles, Some (urljoin current_url next_page)))),
                w')))"

text \<open>
  The loop. It has no bound: where it does not end, the value is \<^term>\<open>None\<close>. Where it
  ends, the value is the exception raised or the list returned, and the state of the
  session.
\<close>

partial_function (option) crawl_loop ::
  "('w \<Rightarrow> string \<Rightarrow> (py_exception + response) \<times> 'w) \<Rightarrow> (string \<Rightarrow> soup)
     \<Rightarrow> (string \<Rightarrow> string \<Rightarrow> string) \<Rightarrow> 'w \<Rightarrow> string \<Rightarrow> string list
     \<Rightarrow> ((py_exception + string list) \<times> 'w) option"
where
  "crawl_loop session_get html_parser urljoin w current_url urls =
     (case crawl_page session_get html_parser urljoin w current_url of
        (Inl e, w') \<Rightarrow> Some (Inl e, w')
      | (Inr (found, None), w') \<Rightarrow> Some (Inr (urls @ found), w')
      | (Inr (found, Some next_url), w') \<Rightarrow>
          crawl_loop session_get html_parser urljoin w' next_url (urls @ found))"

text \<open>\<open>fetch_category_urls(category_url, session)\<close>\<close>

definition fetch_category_urls ::
  "('w \<Rightarrow> string \<Rightarrow> (py_exception + response) \<times> 'w) \<Rightarrow> (string \<Rightarrow> soup)
     \<Rightarrow> (string \<Rightarrow> string \<Rightarrow> string) \<Rightarrow> 'w \<Rightarrow> string
     \<Rightarrow> ((py_exception + string list) \<times> 'w) option"
where
  "fetch_category_urls session_get html_parser urljoin w category_url =
     crawl_loop session_get html_parser urljoin w category_url []"

section \<open>The writers (\<open>utils/saver.py\<close>, and the copy in \<open>phase2/scraper_category.py\<close>)\<close>

text \<open>
  What the writers print, with the values interpolated into each message.
\<close>

datatype console_msg =
    Book_exported string string
      \<comment> \<open>\<open>f"\nLes donnees du livre : '{book_data['title']}' ont etaient exportees vers
          {csv_file}"\<close>\<close>
  | Save_failed py_exception
      \<comment> \<open>\<open>f"[ERREUR] Impossible d'enregistrer le fichier CSV :\n-> {e}"\<close>\<close>
  | No_book_to_save
      \<comment> \<open>\<open>"[INFO] Aucun livre a enregistrer."\<close>\<close>
  | Category_saved nat string
      \<comment> \<open>\<open>f"[SAUVEGARDE] {len(data_list)} livres enregistres dans : {...}"\<close>\<close>
  | Category_write_failed py_exception
      \<comment> \<open>\<open>f"[ERREUR] Echec lors de l'ecriture du fichier CSV : {e}"\<close>\<close>

text \<open>A cell of a row handed to \<open>csv.DictWriter\<close>, and the rows of a record.\<close>

datatype 'f cell = Cell_str string | Cell_int int | Cell_float 'f

definition fieldnames :: "string list" where
  "fieldnames =
     [''product_page_url'', ''universal_product_code'', ''title'', ''price_including_tax'',
      ''price_excluding_tax'', ''number_available'', ''product_description'', ''category'',
      ''review_rating'', ''image_url'']"

definition row_of :: "'f book_data \<Rightarrow> 'f cell list" where
  "row_of b =
     [Cell_str (product_page_url b), Cell_str (universal_product_code b), Cell_str (title b),
      Cell_float (price_including_tax b), Cell_float (price_excluding_tax b),
      (case number_available b of PyInt n \<Rightarrow> Cell_int n | PyStr s \<Rightarrow> Cell_str s),
      Cell_str (product_description b), Cell_str (category b), Cell_int (review_rating b),
      Cell_str (image_url b)]"

text \<open>
  The file system \<open>'fs\<close>, the console, and what the writers take from their
  surroundings:
  \<^item> \<open>path_join\<close> is \<open>os.path.join\<close>;
  \<^item> \<open>makedirs path\<close> is \<open>os.makedirs(path, exist_ok=True)\<close>, and \<open>write_csv path rows\<close>
    is the \<open>with open(path, mode='w', newline='', encoding='utf-8-sig')\<close> block that
    writes the header and the rows with the delimiter \<open>;\<close>: each gives the exception
    it raises, if any, and the file system it leaves;
  \<^item> \<open>clean_filename\<close> is the function of \<open>utils/cleaner.py\<close>, and \<open>date_today\<close> is
    \<open>str(DATE_TODAY)\<close>;
  \<^item> \<open>phase1_dir\<close> is \<open>os.path.abspath(os.path.join(os.path.dirname(__file__), '..',
    'phase1'))\<close>, and \<open>module_dir\<close> is \<open>os.path.dirname(os.path.abspath(__file__))\<close> of
    the module that defines the writer.
\<close>

record 'fs world =
  fs :: 'fs
  console :: "console_msg list"

record ('fs, 'f) surroundings =
  path_join :: "string \<Rightarrow> string \<Rightarrow> string"
  makedirs :: "string \<Rightarrow> 'fs \<Rightarrow> py_exception option \<times> 'fs"
  write_csv :: "string \<Rightarrow> 'f cell list list \<Rightarrow> 'fs \<Rightarrow> py_exception option \<times> 'fs"
  clean_filename :: "string \<Rightarrow> string"
  date_today :: string
  phase1_dir :: string
  module_dir :: string

definition print :: "console_msg \<Rightarrow> 'fs world \<Rightarrow> 'fs world" where
  "print msg world = world\<lparr>console := console world @ [msg]\<rparr>"

text \<open>
  The two \<open>except\<close> clauses of \<open>save_to_csv\<close>: \<open>csv_path\<close> is the directory. After the
  second clause the function ends without a \<open>return\<close>, so it returns \<open>None\<close>.
\<close>

definition save_to_csv_except ::
  "py_exception \<Rightarrow> string \<Rightarrow> 'fs world \<Rightarrow> (py_exception + string option) \<times> 'fs world"
where
  "save_to_csv_except e csv_path world =
     (if is_PermissionError e then (Inl (PermissionError (File_in_use csv_path)), world)
      else (Inr None, print (Save_failed e) world))"

text \<open>\<open>save_to_csv(book_data, folder)\<close> of \<open>utils/saver.py\<close>\<close>

definition save_to_csv ::
  "('fs, 'f) surroundings \<Rightarrow> 'f book_data \<Rightarrow> string \<Rightarrow> 'fs world
     \<Rightarrow> (py_exception + string option) \<times> 'fs world"
where
  "save_to_csv env book_data folder world =
     (let csv_path = path_join env (phase1_dir env) folder in
      case makedirs env csv_path (fs world) of
        (Some e, fs1) \<Rightarrow> save_to_csv_except e csv_path (world\<lparr>fs := fs1\<rparr>)
      | (None, fs1) \<Rightarrow>
          (let clean_title = clean_filename env (title book_data);
               csv_fieldname = clean_title @ ''_'' @ date_today env @ ''.csv'';
               csv_file = path_join env csv_path csv_fieldname
           in case write_csv env csv_file [map Cell_str fieldnames, row_of book_data] fs1 of
                (Some e, fs2) \<Rightarrow> save_to_csv_except e csv_path (world\<lparr>fs := fs2\<rparr>)
              | (None, fs2) \<Rightarrow>
                  (Inr (Some csv_fieldname),
                   print (Book_exported (title book_data) csv_file) (world\<lparr>fs := fs2\<rparr>))))"

text \<open>
  \<open>save_category_to_csv(data_list, category_name)\<close> of \<open>utils/saver.py\<close>. The variable
  \<open>csv_path\<close> is the directory first and the file after line 64: the \<open>except\<close> clauses
  read the value it has when the exception is raised.
\<close>

definition save_category_to_csv_except ::
  "py_exception \<Rightarrow> string \<Rightarrow> 'fs world \<Rightarrow> (py_exception + unit) \<times> 'fs world"
where
  "save_category_to_csv_except e csv_path world =
     (if is_PermissionError e then (Inl (PermissionError (File_in_use csv_path)), world)
      else (Inr (), print (Category_write_failed e) world))"

definition save_category_to_csv ::
  "('fs, 'f) surroundings \<Rightarrow> 'f book_data list \<Rightarrow> string \<Rightarrow> 'fs world
     \<Rightarrow> (py_exception + unit) \<times> 'fs world"
where
  "save_category_to_csv env data_list category_name world =
     (if data_list = [] then (Inr (), print No_book_to_save world)
      else
        let csv_dir = path_join env (module_dir env) ''CSV'' in
        case makedirs env csv_dir (fs world) of
          (Some e, fs1) \<Rightarrow> save_category_to_csv_except e csv_dir (world\<lparr>fs := fs1\<rparr>)
        | (None, fs1) \<Rightarrow>
            (let csv_fieldname =
                   ''products_category_'' @ category_name @ ''_'' @ date_today env @ ''.csv'';
                 csv_path = path_join env csv_dir csv_fieldname
             in case write_csv env csv_path (map Cell_str fieldnames # map row_of data_list) fs1 of
                  (Some e, fs2) \<Rightarrow> save_category_to_csv_except e csv_path (world\<lparr>fs := fs2\<rparr>)
                | (None, fs2) \<Rightarrow>
                    (Inr (),
                     print (Category_saved (length data_list) csv_path) (world\<lparr>fs := fs2\<rparr>))))"

text \<open>
  \<open>save_category_to_csv(data_list, category_name)\<close> as \<open>phase2/scraper_category.py\<close>
  defines it again: one \<open>except Exception\<close> clause, and the message names the file
  under \<open>CSV/\<close>.
\<close>

definition phase2_save_category_to_csv ::
  "('fs, 'f) surroundings \<Rightarrow> 'f book_data list \<Rightarrow> string \<Rightarrow> 'fs world
     \<Rightarrow> (py_exception + unit) \<times> 'fs world"
where
  "phase2_save_category_to_csv env data_list category_name world =
     (if data_list = [] then (Inr (), print No_book_to_save world)
      else
        let csv_dir = path_join env (module_dir env) ''CSV'' in
        case makedirs env csv_dir (fs world) of
          (Some e, fs1) \<Rightarrow> (Inr (), print (Category_write_failed e) (world\<lparr>fs := fs1\<rparr>))
        | (None, fs1) \<Rightarrow>
            (let csv_fieldname =
                   ''products_category_'' @ category_name @ ''_'' @ date_today env @ ''.csv'';
                 csv_path = path_join env csv_dir csv_fieldname
             in case write_csv env csv_path (map Cell_str fieldnames # map row_of data_list) fs1 of
                  (Some e, fs2) \<Rightarrow>
                    (Inr (), print (Category_write_failed e) (world\<lparr>fs := fs2\<rparr>))
                | (None, fs2) \<Rightarrow>
                    (Inr (),
                     print (Category_saved (length data_list) (''CSV/'' @ csv_fieldname))
                       (world\<lparr>fs := fs2\<rparr>))))"

section \<open>Pages that follow one another\<close>

text \<open>
  A configuration of the loop is the state of the session and the current URL.
  \<open>offers_next c c'\<close>: the page fetched at \<open>c\<close> is delivered with a status that
  \<open>raise_for_status\<close> lets pass, has an article, and has a \<open>next\<close> link with an \<open>href\<close>;
  \<open>c'\<close> is the state after the request and the URL that the link resolves to.
\<close>

definition offers_next ::
  "('w \<Rightarrow> string \<Rightarrow> (py_exception + response) \<times> 'w) \<Rightarrow> (string \<Rightarrow> soup)
     \<Rightarrow> (string \<Rightarrow> string \<Rightarrow> string) \<Rightarrow> 'w \<times> string \<Rightarrow> 'w \<times> string \<Rightarrow> bool"
where
  "offers_next session_get html_parser urljoin c c' =
     (case session_get (fst c) (snd c) of
        (Inl e, w') \<Rightarrow> False
      | (Inr response, w') \<Rightarrow>
          raise_for_status response = Inr ()
          \<and> find_all_product_pod (html_parser (text_utf8 response)) \<noteq> []
          \<and> (case find_next (html_parser (text_utf8 response)) of
                Some (Some (Some href)) \<Rightarrow> c' = (w', urljoin (snd c) href)
              | _ \<Rightarrow> False))"

text \<open>
  \<open>category_listing w url pages w_end\<close>: a listing of the pages \<open>pages\<close>, one at least,
  that begins at \<open>url\<close>. Each page is fetched with success, is non-empty, and the link
  of each of its items can be read; each page but the last has a \<open>next\<close> link, which
  resolves to the URL of the page after it, and the last page has none. \<open>w_end\<close> is the
  state of the session after the last request.
\<close>

fun category_listing ::
  "('w \<Rightarrow> string \<Rightarrow> (py_exception + response) \<times> 'w) \<Rightarrow> (string \<Rightarrow> soup)
     \<Rightarrow> (string \<Rightarrow> string \<Rightarrow> string) \<Rightarrow> 'w \<Rightarrow> string \<Rightarrow> soup list \<Rightarrow> 'w \<Rightarrow> bool"
where
  "category_listing session_get html_parser urljoin w url [] w_end = False"
| "category_listing session_get html_parser urljoin w url (page # pages) w_end =
     (case session_get w url of
        (Inl e, w') \<Rightarrow> False
      | (Inr response, w') \<Rightarrow>
          raise_for_status response = Inr ()
          \<and> html_parser (text_utf8 response) = page
          \<and> find_all_product_pod page \<noteq> []
          \<and> list_all (\<lambda>article. \<not> isl (article_url article)) (find_all_product_pod page)
          \<and> (if pages = [] then find_next page = None \<and> w' = w_end
              else (case find_next page of
                      Some (Some (Some href)) \<Rightarrow>
                        category_listing session_get html_parser urljoin w' (urljoin url href)
                          pages w_end
                    | _ \<Rightarrow> False)))"

text \<open>
  \<open>crawled_pages w url pages w_end\<close>: the pages \<open>pages\<close>, one at least, are those that
  a crawl from \<open>url\<close> fetches, in this order: each is delivered with a status that
  \<open>raise_for_status\<close> lets pass and has an article; each but the last has a \<open>next\<close> link
  with an \<open>href\<close>, which resolves to the URL of the page after it, and the last has no
  \<open>next\<close> link. \<open>w_end\<close> is the state of the session after the last request.
\<close>

fun crawled_pages ::
  "('w \<Rightarrow> string \<Rightarrow> (py_exception + response) \<times> 'w) \<Rightarrow> (string \<Rightarrow> soup)
     \<Rightarrow> (string \<Rightarrow> string \<Rightarrow> string) \<Rightarrow> 'w \<Rightarrow> string \<Rightarrow> soup list \<Rightarrow> 'w \<Rightarrow> bool"
where
  "crawled_pages session_get html_parser urljoin w url [] w_end = False"
| "crawled_pages session_get html_parser urljoin w url (page # pages) w_end =
     (case session_get w url of
        (Inl e, w') \<Rightarrow> False
      | (Inr response, w') \<Rightarrow>
          raise_for_status response = Inr ()
          \<and> html_parser (text_utf8 response) = page
          \<and> find_all_product_pod page \<noteq> []
          \<and> (if pages = [] then find_next page = None \<and> w' = w_end
              else (case find_next page of
                      Some (Some (Some href)) \<Rightarrow>
                        crawled_pages session_get html_parser urljoin w' (urljoin url href)
                          pages w_end
                    | _ \<Rightarrow> False)))"

text \<open>
  The \<open>href\<close> of each item of a page that has one (an \<open>h3\<close> with an \<open>a\<close> with the
  attribute), in the order of the page.
\<close>

fun item_hrefs :: "article list \<Rightarrow> string list" where
  "item_hrefs [] = []"
| "item_hrefs (article # articles) =
     (case article of
        Some (Some (Some href)) \<Rightarrow> href # item_hrefs articles
      | _ \<Rightarrow> item_hrefs articles)"

section \<open>The pattern of the availability cell, in words\<close>


section \<open>Example inputs\<close>

text \<open>A document in which no query finds anything, and a transport that answers 404.\<close>

definition empty_soup :: soup where
  "empty_soup =
     \<lparr> find_table = None, find_product_main = None, find_product_description = None,
       find_star_rating = None, find_breadcrumb = None, find_item = None,
       find_all_product_pod = [], find_next = None \<rparr>"


text \<open>
  Surroundings for the writers: a file system that is the list of the files written, a
  write that ends as \<open>write_outcome\<close> says, and one record.
\<close>

definition example_clean_filename :: "string \<Rightarrow> string" where
  "example_clean_filename t = map (\<lambda>c. if c = CHR '' '' then CHR ''_'' else c) t"

definition example_env :: "py_exception option \<Rightarrow> (string list, string) surroundings" where
  "example_env write_outcome =
     \<lparr> path_join = (\<lambda>a b. a @ ''/'' @ b),
       makedirs = (\<lambda>path files. (None, files)),
       write_csv = (\<lambda>path rows files.
         (write_outcome, case write_outcome of None \<Rightarrow> path # files | Some e \<Rightarrow> files)),
       clean_filename = example_clean_filename,
       date_today = ''2025-01-31'',
       phase1_dir = ''/repo/phase1'',
       module_dir = ''/repo/utils'' \<rparr>"

definition example_book :: "string book_data" where
  "example_book =
     \<lparr> product_page_url = ''https://books.toscrape.com/catalogue/a_1/index.html'',
       universal_product_code = ''a897fe39b1053632'',
       title = ''A Light'',
       price_including_tax = ''51.77'',
       price_excluding_tax = ''51.77'',
       number_available = PyInt 22,
       product_description = ''N/A'',
       category = ''Poetry'',
       review_rating = 3,
       image_url = ''https://books.toscrape.com/media/x.jpg'' \<rparr>"

definition empty_world :: "string list world" where
  "empty_world = \<lparr> fs = [], console = [] \<rparr>"

text \<open>
  A product page: a stand-in for \<open>float\<close> that keeps the text of a number, a stand-in for
  \<open>urljoin\<close> that is right for an absolute reference, the rows of the table with a
  given availability cell, the document with given rows and rating classes, and the
  record that the extraction gives for it.
\<close>

definition example_float :: "string \<Rightarrow> string option" where
  "example_float s = (if s \<noteq> [] \<and> list_all (\<lambda>c. is_digit c \<or> c = CHR ''.'') s then Some s else None)"

definition example_urljoin :: "string \<Rightarrow> string \<Rightarrow> string" where
  "example_urljoin base reference = reference"

definition example_rows :: "string \<Rightarrow> (string \<times> string option) list" where
  "example_rows availability =
     [(''UPC'', Some ''a897fe39b1053632''),
      (''Product Type'', Some ''Books''),
      (''Price (excl. tax)'', Some (pound @ ''51.77'')),
      (''Price (incl. tax)'', Some (pound @ ''51.77'')),
      (''Tax'', Some (pound @ ''0.00'')),
      (''Availability'', Some availability),
      (''Number of reviews'', Some ''0'')]"

definition example_product_soup :: "(string \<times> string option) list \<Rightarrow> string list option \<Rightarrow> soup" where
  "example_product_soup rows rating_classes =
     \<lparr> find_table = Some rows,
       find_product_main = Some (Some ''A Light in the Attic''),
       find_product_description = Some (Some ''Poems.''),
       find_star_rating = rating_classes,
       find_breadcrumb = Some [''Home'', ''Books'', '' Poetry '', ''A Light in the Attic''],
       find_item = Some (Some (Some ''https://books.toscrape.com/media/x.jpg'')),
       find_all_product_pod = [],
       find_next = None \<rparr>"

definition example_record :: "py_value \<Rightarrow> int \<Rightarrow> string book_data" where
  "example_record available rating =
     \<lparr> product_page_url = ''https://books.toscrape.com/catalogue/a_1/index.html'',
       universal_product_code = ''a897fe39b1053632'',
       title = ''A Light in the Attic'',
       price_including_tax = ''51.77'',
       price_excluding_tax = ''51.77'',
       number_available = available,
       product_description = ''Poems.'',
       category = ''Poetry'',
       review_rating = rating,
       image_url = ''https://books.toscrape.com/media/x.jpg'' \<rparr>"

text \<open>
  Listing pages: a document with given item links and \<open>next\<close> link; a parser and a
  session for a category of two pages, where the state of the session counts the
  requests; and a session whose every page has a \<open>next\<close> link to itself.
\<close>

definition listing_soup :: "string list \<Rightarrow> string option \<Rightarrow> soup" where
  "listing_soup hrefs next_href =
     \<lparr> find_table = None, find_product_main = None, find_product_description = None,
       find_star_rating = None, find_breadcrumb = None, find_item = None,
       find_all_product_pod = map (\<lambda>href. Some (Some (Some href))) hrefs,
       find_next = (case next_href of None \<Rightarrow> None | Some href \<Rightarrow> Some (Some (Some href))) \<rparr>"

definition example_parser :: "string \<Rightarrow> soup" where
  "example_parser text =
     (if text = ''page 1'' then listing_soup [''../../../a_1/index.html'', ''../../../b_2/index.html''] (Some ''page-2.html'')
      else if text = ''page 2'' then listing_soup [''../../../c_3/index.html''] None
      else if text = ''again'' then listing_soup [''../../../a_1/index.html''] (Some ''index.html'')
      else empty_soup)"

definition example_session :: "nat \<Rightarrow> string \<Rightarrow> (py_exception + response) \<times> nat" where
  "example_session requests url =
     (if url = ''index.html'' then Inr \<lparr> status_code = 200, text_utf8 = ''page 1'' \<rparr>
      else if url = ''page-2.html'' then Inr \<lparr> status_code = 200, text_utf8 = ''page 2'' \<rparr>
      else Inr \<lparr> status_code = 404, text_utf8 = ''Not Found'' \<rparr>,
      Suc requests)"



section \<open>The fetch routines and the status code\<close>




section \<open>The writers\<close>

text \<open>
  Claim C6. Given an empty list, both definitions of \<open>save_category_to_csv\<close> return
  at once: whatever the surroundings are, the file system is the one they were given,
  so no directory and no file is made and nothing is written, and the console has one
  message more, the informational one.
\<close>

theorem save_category_to_csv_empty:
  "save_category_to_csv env [] category_name world
     = (Inr (), world\<lparr>console := console world @ [No_book_to_save]\<rparr>)
   \<and> phase2_save_category_to_csv env [] category_name world
     = (Inr (), world\<lparr>console := console world @ [No_book_to_save]\<rparr>)"
  by (simp add: save_category_to_csv_def phase2_save_category_to_csv_def print_def)

text \<open>
  The copy of \<open>save_category_to_csv\<close> in \<open>phase2/scraper_category.py\<close> has no clause for
  \<open>PermissionError\<close>: it never raises.
\<close>

lemma phase2_save_category_to_csv_never_raises:
  "fst (phase2_save_category_to_csv env data_list category_name world) = Inr ()"
  by (simp add: phase2_save_category_to_csv_def Let_def split: prod.splits option.splits)



text \<open>
  Claim C8, as amended. Where the making of the directory and the writing succeed,
  \<open>save_to_csv\<close> returns the generated file name: the cleaned title, an underscore, the
  date of the day and \<open>.csv\<close>. The counterexample is a write that fails with an
  \<open>OSError\<close>: the function returns \<open>None\<close>.
\<close>

theorem save_to_csv_returns_filename:
  assumes "makedirs env (path_join env (phase1_dir env) folder) (fs world) = (None, fs1)"
    and "write_csv env
           (path_join env (path_join env (phase1_dir env) folder)
              (clean_filename env (title book_data) @ ''_'' @ date_today env @ ''.csv''))
           [map Cell_str fieldnames, row_of book_data] fs1 = (None, fs2)"
  shows "fst (save_to_csv env book_data folder world)
           = Inr (Some (clean_filename env (title book_data) @ ''_'' @ date_today env @ ''.csv''))"
  using assms by (simp add: save_to_csv_def Let_def)

theorem save_to_csv_returns_filename_witness:
  "fst (save_to_csv (example_env None) example_book ''CSV'' empty_world)
     = Inr (Some ''A_Light_2025-01-31.csv'')"
  using save_to_csv_returns_filename [of "example_env None" "''CSV''" empty_world "[]" example_book
     "[''/repo/phase1/CSV/A_Light_2025-01-31.csv'']"]
  by (simp add: example_env_def example_book_def empty_world_def example_clean_filename_def)

theorem save_to_csv_returns_filename_counterexample:
  "fst (save_to_csv (example_env (Some (OSError ''No space left on device''))) example_book ''CSV''
          empty_world) = Inr None"
  by (simp add: save_to_csv_def save_to_csv_except_def example_env_def example_book_def empty_world_def Let_def print_def)

section \<open>The extraction of a record\<close>

subsection \<open>The matcher and the pattern\<close>









subsection \<open>The body of the extraction\<close>

lemma get_table_value_missing:
  "label \<notin> fst ` set rows
   \<Longrightarrow> get_table_value (Some rows) label = Inl (ValueError (Label_not_found label))"
proof -
  assume "label \<notin> fst ` set rows"
  then have "find (\<lambda>(th, td). th = label) rows = None"
    by (force simp: find_None_iff)
  then show ?thesis by (simp add: get_table_value_def)
qed

lemma and_then_Inr_iff:
  "and_then r f = Inr y \<longleftrightarrow> (\<exists>x. r = Inr x \<and> f x = Inr y)"
  by (cases r) (simp_all add: and_then_def)

lemma and_then_Inl: "and_then (Inl e) f = Inl e"
  by (simp add: and_then_def)

lemma and_then_Inr: "and_then (Inr x) f = f x"
  by (simp add: and_then_def)

lemma extract_book_data_try_Inr:
  assumes "extract_book_data_try int_max_str_digits py_float urljoin soup url = Inr b"
  shows "\<exists>a upc p1 p2.
           get_table_value (find_table soup) ''Availability'' = Inr a
         \<and> get_table_value (find_table soup) ''UPC'' = Inr upc
         \<and> get_table_value (find_table soup) ''Price (incl. tax)'' = Inr p1
         \<and> get_table_value (find_table soup) ''Price (excl. tax)'' = Inr p2
         \<and> number_available_of int_max_str_digits a = Inr (number_available b)
         \<and> review_rating b = review_rating_of (find_star_rating soup)"
  using assms unfolding extract_book_data_try_def Let_def and_then_Inr_iff
  by auto

lemma extract_book_data_Inr_iff:
  "extract_book_data int_max_str_digits py_float urljoin soup url = Inr b
   \<longleftrightarrow> extract_book_data_try int_max_str_digits py_float urljoin soup url = Inr b"
  by (simp add: extract_book_data_def split: sum.splits)

lemma extract_book_data_Inl_iff:
  "extract_book_data int_max_str_digits py_float urljoin soup url = Inl x
   \<longleftrightarrow> (\<exists>cause. extract_book_data_try int_max_str_digits py_float urljoin soup url = Inl cause
         \<and> x = RuntimeError (Extract_failed url cause))"
  by (auto simp: extract_book_data_def split: sum.splits)











subsection \<open>The rating\<close>

lemma review_rating_map_range: "review_rating_map k = Some n \<Longrightarrow> 0 \<le> n \<and> n \<le> 5"
  by (auto simp: review_rating_map_def split: if_splits)

lemma review_rating_of_range: "0 \<le> review_rating_of tag \<and> review_rating_of tag \<le> 5"
  unfolding review_rating_of_def Let_def
  by (auto split: option.splits dest: review_rating_map_range)

lemma filter_first_other:
  "set pre \<subseteq> {base} \<Longrightarrow> cls \<noteq> base
   \<Longrightarrow> filter (\<lambda>c. c \<noteq> base) (pre @ cls # rest) = cls # filter (\<lambda>c. c \<noteq> base) rest"
  by (induction pre) auto

text \<open>
  Claim C3, as amended. The rating of a record returned is an integer from 0 to 5. It
  is 0 where the marker is absent. Where the marker is there, the first class other
  than \<open>star-rating\<close> decides: the rating is the integer of that class, capitalised, if
  it is a number word of the table, and 0 if it is not. It is 0 where no class of the
  list, capitalised, is a number word of the table. The counterexample is a class list
  that contains \<open>star-rating\<close> and \<open>Three\<close>, with another class before \<open>Three\<close>: the
  rating is 0.
\<close>

theorem review_rating_first_other_class:
  "(extract_book_data int_max_str_digits py_float urljoin soup url = Inr b
      \<longrightarrow> review_rating b = review_rating_of (find_star_rating soup)
          \<and> 0 \<le> review_rating b \<and> review_rating b \<le> 5)
   \<and> review_rating_of None = 0
   \<and> (set pre \<subseteq> {''star-rating''} \<and> cls \<noteq> ''star-rating''
      \<longrightarrow> review_rating_of (Some (pre @ cls # rest))
          = (case review_rating_map (capitalize cls) of Some n \<Rightarrow> n | None \<Rightarrow> 0))
   \<and> ((\<forall>cls \<in> set classes. review_rating_map (capitalize cls) = None)
      \<longrightarrow> review_rating_of (Some classes) = 0)"
proof (intro conjI impI)
  assume "extract_book_data int_max_str_digits py_float urljoin soup url = Inr b"
  then have "extract_book_data_try int_max_str_digits py_float urljoin soup url = Inr b"
    by (simp add: extract_book_data_Inr_iff)
  from extract_book_data_try_Inr [OF this]
  show r: "review_rating b = review_rating_of (find_star_rating soup)" by blast
  show "0 \<le> review_rating b" "review_rating b \<le> 5"
    using review_rating_of_range [of "find_star_rating soup"] r by simp_all
next
  show "review_rating_of None = 0"
    by (simp add: review_rating_of_def review_rating_map_def)
next
  assume "set pre \<subseteq> {''star-rating''} \<and> cls \<noteq> ''star-rating''"
  then have "filter (\<lambda>c. c \<noteq> ''star-rating'') (pre @ cls # rest)
      = cls # filter (\<lambda>c. c \<noteq> ''star-rating'') rest"
    using filter_first_other [of pre "''star-rating''" cls rest] by blast
  then show "review_rating_of (Some (pre @ cls # rest))
          = (case review_rating_map (capitalize cls) of Some n \<Rightarrow> n | None \<Rightarrow> 0)"
    by (simp add: review_rating_of_def)
next
  assume none: "\<forall>cls \<in> set classes. review_rating_map (capitalize cls) = None"
  show "review_rating_of (Some classes) = 0"
  proof (cases "filter (\<lambda>c. c \<noteq> ''star-rating'') classes")
    case Nil
    then show ?thesis by (simp add: review_rating_of_def review_rating_map_def)
  next
    case (Cons c cs)
    then have "c \<in> set (filter (\<lambda>c. c \<noteq> ''star-rating'') classes)" by simp
    then have "c \<in> set classes" by simp
    with none have "review_rating_map (capitalize c) = None" by blast
    with Cons show ?thesis by (simp add: review_rating_of_def)
  qed
qed

theorem review_rating_first_other_class_witness:
  "review_rating_of (Some [''star-rating'', ''Three'']) = 3
   \<and> review_rating_of (Some [''star-rating'']) = 0"
proof -
  have c: "capitalize ''Three'' = ''Three''" "capitalize ''star-rating'' = ''Star-rating''"
    by code_simp+
  have m: "review_rating_map ''Three'' = Some 3" "review_rating_map ''Star-rating'' = None"
    by (simp_all add: review_rating_map_def)
  show ?thesis
    using review_rating_first_other_class
      [of 4300 example_float example_urljoin empty_soup "''u''" "example_record (PyInt 22) 3"
        "[''star-rating'']" "''Three''" "[]" "[''star-rating'']"]
    by (auto simp del: capitalize.simps simp add: c m)
qed

theorem review_rating_counterexample:
  "''star-rating'' \<in> set [''star-rating'', ''big'', ''Three'']
   \<and> ''Three'' \<in> set [''star-rating'', ''big'', ''Three'']
   \<and> review_rating_map ''Three'' = Some 3
   \<and> extract_book_data 4300 example_float example_urljoin
        (example_product_soup (example_rows ''In stock (22 available)'')
           (Some [''star-rating'', ''big'', ''Three'']))
        ''https://books.toscrape.com/catalogue/a_1/index.html''
      = Inr (example_record (PyInt 22) 0)"
  by code_simp

subsection \<open>A missing label\<close>

text \<open>
  Claim C4. Where the table lacks one of the four labels that the extraction looks up,
  \<open>extract_book_data\<close> raises the extraction failure, which carries the URL and the
  exception of the body. Every exception that \<open>extract_book_data\<close> raises is of this
  one kind, and the result is an exception or a whole record. Where the title and the
  availability row are there, the count of the availability cell is read without an
  exception, and the \<open>UPC\<close> row is not there, the cause is the \<open>ValueError\<close> that
  names \<open>UPC\<close>.
\<close>

theorem missing_label_raises:
  "(find_table soup = Some rows
      \<and> label \<in> {''UPC'', ''Price (incl. tax)'', ''Price (excl. tax)'', ''Availability''}
      \<and> label \<notin> fst ` set rows
    \<longrightarrow> (\<exists>cause. extract_book_data int_max_str_digits py_float urljoin soup url
                   = Inl (RuntimeError (Extract_failed url cause))))
   \<and> (extract_book_data int_max_str_digits py_float urljoin soup url = Inl x
    \<longrightarrow> (\<exists>cause. extract_book_data_try int_max_str_digits py_float urljoin soup url = Inl cause
           \<and> x = RuntimeError (Extract_failed url cause)))
   \<and> (find_table soup = Some rows \<and> find_product_main soup = Some (Some t)
      \<and> get_table_value (Some rows) ''Availability'' = Inr a
      \<and> number_available_of int_max_str_digits a = Inr v
      \<and> ''UPC'' \<notin> fst ` set rows
    \<longrightarrow> extract_book_data int_max_str_digits py_float urljoin soup url
          = Inl (RuntimeError (Extract_failed url (ValueError (Label_not_found ''UPC'')))))"
proof (intro conjI impI)
  assume a: "find_table soup = Some rows
      \<and> label \<in> {''UPC'', ''Price (incl. tax)'', ''Price (excl. tax)'', ''Availability''}
      \<and> label \<notin> fst ` set rows"
  then have missing: "get_table_value (find_table soup) label = Inl (ValueError (Label_not_found label))"
    by (simp add: get_table_value_missing)
  have "\<not> (\<exists>b. extract_book_data_try int_max_str_digits py_float urljoin soup url = Inr b)"
  proof
    assume "\<exists>b. extract_book_data_try int_max_str_digits py_float urljoin soup url = Inr b"
    then obtain b where "extract_book_data_try int_max_str_digits py_float urljoin soup url = Inr b" ..
    from extract_book_data_try_Inr [OF this] a missing show False by auto
  qed
  then obtain cause where "extract_book_data_try int_max_str_digits py_float urljoin soup url = Inl cause"
    by (cases "extract_book_data_try int_max_str_digits py_float urljoin soup url") auto
  then show "\<exists>cause. extract_book_data int_max_str_digits py_float urljoin soup url
                   = Inl (RuntimeError (Extract_failed url cause))"
    by (auto simp: extract_book_data_def)
next
  assume "extract_book_data int_max_str_digits py_float urljoin soup url = Inl x"
  then show "\<exists>cause. extract_book_data_try int_max_str_digits py_float urljoin soup url = Inl cause
           \<and> x = RuntimeError (Extract_failed url cause)"
    by (simp add: extract_book_data_Inl_iff)
next
  assume a: "find_table soup = Some rows \<and> find_product_main soup = Some (Some t)
      \<and> get_table_value (Some rows) ''Availability'' = Inr a
      \<and> number_available_of int_max_str_digits a = Inr v
      \<and> ''UPC'' \<notin> fst ` set rows"
  then have upc: "get_table_value (Some rows) ''UPC'' = Inl (ValueError (Label_not_found ''UPC''))"
    by (simp add: get_table_value_missing)
  have "extract_book_data_try int_max_str_digits py_float urljoin soup url
      = Inl (ValueError (Label_not_found ''UPC''))"
    using a unfolding extract_book_data_try_def Let_def
    by (simp add: upc and_then_Inr and_then_Inl)
  then show "extract_book_data int_max_str_digits py_float urljoin soup url
          = Inl (RuntimeError (Extract_failed url (ValueError (Label_not_found ''UPC''))))"
    by (simp add: extract_book_data_def)
qed

theorem missing_label_raises_witness:
  "extract_book_data 4300 example_float example_urljoin
     (example_product_soup (tl (example_rows ''In stock (22 available)'')) (Some [''star-rating'', ''Three'']))
     ''https://books.toscrape.com/catalogue/a_1/index.html''
   = Inl (RuntimeError (Extract_failed ''https://books.toscrape.com/catalogue/a_1/index.html''
            (ValueError (Label_not_found ''UPC''))))"
proof -
  let ?rows = "tl (example_rows ''In stock (22 available)'')"
  have n: "number_available_of 4300 ''In stock (22 available)'' = Inr (PyInt 22)"
    by code_simp
  have g: "get_table_value (Some ?rows) ''Availability'' = Inr ''In stock (22 available)''"
    by (simp add: example_rows_def get_table_value_def)
  have u: "''UPC'' \<notin> fst ` set ?rows"
    by (simp add: example_rows_def)
  from missing_label_raises
    [where soup = "example_product_soup ?rows (Some [''star-rating'', ''Three''])"
       and rows = ?rows and label = "''UPC''" and int_max_str_digits = 4300
       and py_float = example_float and urljoin = example_urljoin
       and url = "''https://books.toscrape.com/catalogue/a_1/index.html''"
       and t = "''A Light in the Attic''" and a = "''In stock (22 available)''"
       and v = "PyInt 22", THEN conjunct2, THEN conjunct2]
    n g u
  show ?thesis by (simp add: example_product_soup_def)
qed

section \<open>The crawl of a category\<close>

subsection \<open>One turn of the loop\<close>

lemma find_subscript_Inr_iff: "find_subscript a key = Inr v \<longleftrightarrow> a = Some (Some v)"
  by (cases "(a, key)" rule: find_subscript.cases) auto

lemma crawl_page_not_delivered:
  assumes "session_get w url = (Inl e, w1)"
  shows "\<exists>x. crawl_page session_get html_parser urljoin w url = (Inl x, w1)"
  using assms by (simp add: crawl_page_def and_then_def)

lemma crawl_page_bad_status:
  assumes "session_get w url = (Inr response, w1)" and "raise_for_status response \<noteq> Inr ()"
  shows "\<exists>x. crawl_page session_get html_parser urljoin w url = (Inl x, w1)"
proof -
  from assms(2) obtain x where "raise_for_status response = Inl x"
    by (cases "raise_for_status response") auto
  with assms(1) show ?thesis by (simp add: crawl_page_def and_then_def)
qed

lemma crawl_page_delivered:
  assumes "session_get w url = (Inr response, w1)" and "raise_for_status response = Inr ()"
  shows "crawl_page session_get html_parser urljoin w url =
     (if find_all_product_pod (html_parser (text_utf8 response)) = []
      then Inl (RuntimeError (No_article url))
      else (case find_next (html_parser (text_utf8 response)) of
              None \<Rightarrow>
                Inr (collect_urls (find_all_product_pod (html_parser (text_utf8 response))), None)
            | Some a \<Rightarrow>
                and_then (find_subscript a ''href'') (\<lambda>next_page.
                Inr (collect_urls (find_all_product_pod (html_parser (text_utf8 response))),
                     Some (urljoin url next_page)))),
      w1)"
  using assms by (simp add: crawl_page_def and_then_def Let_def)

lemma crawl_page_next:
  assumes "crawl_page session_get html_parser urljoin w url = (Inr (found, Some u), w')"
  shows "offers_next session_get html_parser urljoin (w, url) (w', u)"
proof -
  obtain got w1 where g: "session_get w url = (got, w1)" by (cases "session_get w url")
  show ?thesis
  proof (cases got)
    case (Inl e)
    with g crawl_page_not_delivered [of session_get w url e w1 html_parser urljoin] assms
    show ?thesis by auto
  next
    case (Inr response)
    show ?thesis
    proof (cases "raise_for_status response = Inr ()")
      case False
      with g Inr crawl_page_bad_status [of session_get w url response w1 html_parser urljoin] assms
      show ?thesis by auto
    next
      case True
      let ?soup = "html_parser (text_utf8 response)"
      note d = crawl_page_delivered [of session_get w url response w1 html_parser urljoin]
      from assms d g Inr True have ne: "find_all_product_pod ?soup \<noteq> []" and w: "w1 = w'"
        by (auto split: if_splits)
      from assms d g Inr True ne obtain a where a: "find_next ?soup = Some a"
        by (cases "find_next ?soup") auto
      from assms d g Inr True ne a obtain href where h: "find_subscript a ''href'' = Inr href"
        and u: "u = urljoin url href"
        by (cases "find_subscript a ''href''") (auto simp: and_then_def)
      from h have "a = Some (Some href)" by (simp add: find_subscript_Inr_iff)
      with g Inr True ne a u w show ?thesis
        by (simp add: offers_next_def)
    qed
  qed
qed

lemma offers_next_crawl_page:
  assumes "offers_next session_get html_parser urljoin (w, url) (w', u)"
  shows "\<exists>response. session_get w url = (Inr response, w')
           \<and> crawl_page session_get html_parser urljoin w url
             = (Inr (collect_urls (find_all_product_pod (html_parser (text_utf8 response))),
                  Some u), w')"
proof -
  obtain got w1 where g: "session_get w url = (got, w1)" by (cases "session_get w url")
  from assms g obtain response where r: "got = Inr response"
    by (cases got) (auto simp: offers_next_def)
  let ?soup = "html_parser (text_utf8 response)"
  from assms g r have ok: "raise_for_status response = Inr ()"
    and ne: "find_all_product_pod ?soup \<noteq> []"
    by (auto simp: offers_next_def)
  from assms g r obtain href where n: "find_next ?soup = Some (Some (Some href))"
    and c: "(w', u) = (w1, urljoin url href)"
    by (auto simp: offers_next_def split: option.splits)
  from g r ok have "crawl_page session_get html_parser urljoin w url
      = (Inr (collect_urls (find_all_product_pod ?soup), Some u), w')"
    using ne n c by (simp add: crawl_page_delivered and_then_def)
  with g r c show ?thesis by auto
qed

subsection \<open>The loop\<close>

lemma crawl_loop_next:
  "crawl_page session_get html_parser urljoin w url = (Inr (found, Some u), w')
   \<Longrightarrow> crawl_loop session_get html_parser urljoin w url urls
       = crawl_loop session_get html_parser urljoin w' u (urls @ found)"
  by (subst crawl_loop.simps) simp

lemma crawl_loop_last:
  "crawl_page session_get html_parser urljoin w url = (Inr (found, None), w')
   \<Longrightarrow> crawl_loop session_get html_parser urljoin w url urls = Some (Inr (urls @ found), w')"
  by (subst crawl_loop.simps) simp








subsection \<open>The URLs returned\<close>

lemma collect_urls_item_hrefs:
  "collect_urls articles
     = map (\<lambda>href. catalogue_root @ replace href ''../'' []) (item_hrefs articles)"
proof (induction articles)
  case Nil
  then show ?case by simp
next
  case (Cons article articles)
  show ?case
  proof (cases article)
    case None
    with Cons show ?thesis by (simp add: article_url_def)
  next
    case h3: (Some a)
    show ?thesis
    proof (cases a)
      case None
      with h3 Cons show ?thesis by (simp add: article_url_def and_then_def)
    next
      case anchor: (Some attribute)
      show ?thesis
      proof (cases attribute)
        case None
        with h3 anchor Cons show ?thesis by (simp add: article_url_def and_then_def)
      next
        case (Some href)
        with h3 anchor Cons show ?thesis by (simp add: article_url_def and_then_def)
      qed
    qed
  qed
qed

lemma collect_urls_prefix:
  "u \<in> set (collect_urls articles) \<Longrightarrow> prefix catalogue_root u"
  by (auto simp: collect_urls_item_hrefs)

lemma crawl_page_last:
  assumes "crawl_page session_get html_parser urljoin w url = (Inr (found, None), w')"
  shows "\<exists>response. session_get w url = (Inr response, w')
           \<and> raise_for_status response = Inr ()
           \<and> find_all_product_pod (html_parser (text_utf8 response)) \<noteq> []
           \<and> find_next (html_parser (text_utf8 response)) = None
           \<and> found = collect_urls (find_all_product_pod (html_parser (text_utf8 response)))"
proof -
  obtain got w1 where g: "session_get w url = (got, w1)" by (cases "session_get w url")
  show ?thesis
  proof (cases got)
    case (Inl e)
    with g crawl_page_not_delivered [of session_get w url e w1 html_parser urljoin] assms
    show ?thesis by auto
  next
    case (Inr response)
    show ?thesis
    proof (cases "raise_for_status response = Inr ()")
      case False
      with g Inr crawl_page_bad_status [of session_get w url response w1 html_parser urljoin] assms
      show ?thesis by auto
    next
      case True
      let ?soup = "html_parser (text_utf8 response)"
      note d = crawl_page_delivered [of session_get w url response w1 html_parser urljoin]
      from assms d g Inr True have ne: "find_all_product_pod ?soup \<noteq> []" and w: "w1 = w'"
        by (auto split: if_splits)
      have n: "find_next ?soup = None"
      proof (cases "find_next ?soup")
        case None
        then show ?thesis .
      next
        case (Some a)
        with assms d g Inr True ne show ?thesis
          by (cases "find_subscript a ''href''") (auto simp: and_then_def)
      qed
      from assms d g Inr True ne n have "found = collect_urls (find_all_product_pod ?soup)"
        by auto
      with g Inr True ne n w show ?thesis by simp
    qed
  qed
qed

lemma crawl_page_next_found:
  assumes "crawl_page session_get html_parser urljoin w url = (Inr (found, Some u), w')"
  shows "\<exists>response href. session_get w url = (Inr response, w')
           \<and> raise_for_status response = Inr ()
           \<and> find_all_product_pod (html_parser (text_utf8 response)) \<noteq> []
           \<and> find_next (html_parser (text_utf8 response)) = Some (Some (Some href))
           \<and> u = urljoin url href
           \<and> found = collect_urls (find_all_product_pod (html_parser (text_utf8 response)))"
proof -
  from assms have o: "offers_next session_get html_parser urljoin (w, url) (w', u)"
    by (rule crawl_page_next)
  from offers_next_crawl_page [OF o] obtain response where
    g: "session_get w url = (Inr response, w')"
    and p: "crawl_page session_get html_parser urljoin w url
             = (Inr (collect_urls (find_all_product_pod (html_parser (text_utf8 response))),
                  Some u), w')"
    by blast
  from p assms have f: "found = collect_urls (find_all_product_pod (html_parser (text_utf8 response)))"
    by simp
  from o g have ok: "raise_for_status response = Inr ()"
    and ne: "find_all_product_pod (html_parser (text_utf8 response)) \<noteq> []"
    by (auto simp: offers_next_def)
  from o g obtain href where
    "find_next (html_parser (text_utf8 response)) = Some (Some (Some href))"
    and "u = urljoin url href"
    by (auto simp: offers_next_def split: option.splits)
  with g f ok ne show ?thesis by blast
qed

lemma crawl_loop_crawled_pages:
  assumes "crawl_loop session_get html_parser urljoin w url urls = Some r"
  shows "\<forall>result w'. r = (Inr result, w')
     \<longrightarrow> (\<exists>pages. crawled_pages session_get html_parser urljoin w url pages w'
           \<and> result
             = urls @ concat (map (\<lambda>page. collect_urls (find_all_product_pod page)) pages))"
  using assms
proof (induction rule: crawl_loop.raw_induct [rotated 1, consumes 1])
  case (1 loop session_get html_parser urljoin w url urls r)
  note IH = "1"(1) and eq = "1"(2)
  obtain res w1 where p: "crawl_page session_get html_parser urljoin w url = (res, w1)"
    by (cases "crawl_page session_get html_parser urljoin w url")
  show ?case
  proof (cases res)
    case (Inl e)
    with eq p show ?thesis by auto
  next
    case (Inr fn)
    obtain found nxt where fn: "fn = (found, nxt)" by (cases fn)
    show ?thesis
    proof (cases nxt)
      case None
      with eq p Inr fn have r: "r = (Inr (urls @ found), w1)" by auto
      from p Inr fn None
      have "crawl_page session_get html_parser urljoin w url = (Inr (found, None), w1)"
        by simp
      from crawl_page_last [OF this] obtain response where
        g: "session_get w url = (Inr response, w1)"
        and ok: "raise_for_status response = Inr ()"
        and ne: "find_all_product_pod (html_parser (text_utf8 response)) \<noteq> []"
        and n: "find_next (html_parser (text_utf8 response)) = None"
        and f: "found = collect_urls (find_all_product_pod (html_parser (text_utf8 response)))"
        by blast
      let ?page = "html_parser (text_utf8 response)"
      from g ok ne n have c: "crawled_pages session_get html_parser urljoin w url [?page] w1"
        by simp
      show ?thesis
      proof (intro allI impI)
        fix result w'
        assume "r = (Inr result, w')"
        with r have "result = urls @ found" and "w' = w1" by simp_all
        with c f show "\<exists>pages. crawled_pages session_get html_parser urljoin w url pages w'
           \<and> result
             = urls @ concat (map (\<lambda>page. collect_urls (find_all_product_pod page)) pages)"
          by (intro exI [of _ "[?page]"]) simp
      qed
    next
      case (Some u)
      with eq p Inr fn have "loop session_get html_parser urljoin w1 u (urls @ found) = Some r"
        by simp
      note ih = IH [OF this]
      from p Inr fn Some
      have "crawl_page session_get html_parser urljoin w url = (Inr (found, Some u), w1)"
        by simp
      from crawl_page_next_found [OF this] obtain response href where
        g: "session_get w url = (Inr response, w1)"
        and ok: "raise_for_status response = Inr ()"
        and ne: "find_all_product_pod (html_parser (text_utf8 response)) \<noteq> []"
        and n: "find_next (html_parser (text_utf8 response)) = Some (Some (Some href))"
        and u: "u = urljoin url href"
        and f: "found = collect_urls (find_all_product_pod (html_parser (text_utf8 response)))"
        by blast
      let ?page = "html_parser (text_utf8 response)"
      show ?thesis
      proof (intro allI impI)
        fix result w'
        assume "r = (Inr result, w')"
        with ih obtain pages where
          c: "crawled_pages session_get html_parser urljoin w1 u pages w'"
          and e: "result = (urls @ found)
                @ concat (map (\<lambda>page. collect_urls (find_all_product_pod page)) pages)"
          by blast
        from c have "pages \<noteq> []" by (cases pages) simp_all
        with c g ok ne n u
        have "crawled_pages session_get html_parser urljoin w url (?page # pages) w'"
          by simp
        moreover from e f
        have "result = urls
            @ concat (map (\<lambda>page. collect_urls (find_all_product_pod page)) (?page # pages))"
          by simp
        ultimately
        show "\<exists>pages. crawled_pages session_get html_parser urljoin w url pages w'
           \<and> result
             = urls @ concat (map (\<lambda>page. collect_urls (find_all_product_pod page)) pages)"
          by (intro exI [of _ "?page # pages"] conjI)
      qed
    qed
  qed
qed

text \<open>
  Claim C10. The list returned is built item by item from the pages that the crawl
  fetches, in their order: for each item of a page whose link can be read, the URL is
  the catalogue root followed by the \<open>href\<close> of the item with the occurrences of \<open>../\<close>
  removed. So every URL of the list starts with the catalogue root, whatever the URL
  of the page is.
\<close>

theorem urls_under_catalogue_root:
  assumes "fetch_category_urls session_get html_parser urljoin w category_url = Some (Inr urls, w')"
  shows "(\<forall>u \<in> set urls. prefix catalogue_root u)
     \<and> (\<exists>pages. crawled_pages session_get html_parser urljoin w category_url pages w'
          \<and> urls = concat (map (\<lambda>page.
                map (\<lambda>href. catalogue_root @ replace href ''../'' [])
                  (item_hrefs (find_all_product_pod page))) pages))"
proof -
  from assms
  have "crawl_loop session_get html_parser urljoin w category_url [] = Some (Inr urls, w')"
    by (simp add: fetch_category_urls_def)
  from crawl_loop_crawled_pages [OF this] obtain pages where
    c: "crawled_pages session_get html_parser urljoin w category_url pages w'"
    and e: "urls = concat (map (\<lambda>page. collect_urls (find_all_product_pod page)) pages)"
    by auto
  from e have e': "urls = concat (map (\<lambda>page.
                map (\<lambda>href. catalogue_root @ replace href ''../'' [])
                  (item_hrefs (find_all_product_pod page))) pages)"
    by (simp add: collect_urls_item_hrefs)
  have "\<forall>u \<in> set urls. prefix catalogue_root u"
    unfolding e by (auto dest: collect_urls_prefix)
  with c e' show ?thesis by blast
qed

lemma example_crawl:
  "fetch_category_urls example_session example_parser (\<lambda>base href. href) 0 ''index.html''
     = Some (Inr [''https://books.toscrape.com/catalogue/a_1/index.html'',
                  ''https://books.toscrape.com/catalogue/b_2/index.html'',
                  ''https://books.toscrape.com/catalogue/c_3/index.html''], 2)"
  unfolding fetch_category_urls_def
  by (subst crawl_loop.simps, subst crawl_loop.simps) code_simp

theorem urls_under_catalogue_root_witness:
  "prefix catalogue_root ''https://books.toscrape.com/catalogue/a_1/index.html''
   \<and> prefix catalogue_root ''https://books.toscrape.com/catalogue/b_2/index.html''
   \<and> prefix catalogue_root ''https://books.toscrape.com/catalogue/c_3/index.html''
   \<and> (\<exists>pages. crawled_pages example_session example_parser (\<lambda>base href. href) 0 ''index.html''
          pages 2
        \<and> [''https://books.toscrape.com/catalogue/a_1/index.html'',
            ''https://books.toscrape.com/catalogue/b_2/index.html'',
            ''https://books.toscrape.com/catalogue/c_3/index.html'']
          = concat (map (\<lambda>page.
              map (\<lambda>href. catalogue_root @ replace href ''../'' [])
                (item_hrefs (find_all_product_pod page))) pages))"
proof -
  note T = urls_under_catalogue_root [OF example_crawl]
  from T have "\<forall>u \<in> set [''https://books.toscrape.com/catalogue/a_1/index.html'',
            ''https://books.toscrape.com/catalogue/b_2/index.html'',
            ''https://books.toscrape.com/catalogue/c_3/index.html'']. prefix catalogue_root u"
    by (rule conjunct1)
  then have "prefix catalogue_root ''https://books.toscrape.com/catalogue/a_1/index.html''
   \<and> prefix catalogue_root ''https://books.toscrape.com/catalogue/b_2/index.html''
   \<and> prefix catalogue_root ''https://books.toscrape.com/catalogue/c_3/index.html''"
    by simp
  moreover from T have "\<exists>pages. crawled_pages example_session example_parser (\<lambda>base href. href)
          0 ''index.html'' pages 2
        \<and> [''https://books.toscrape.com/catalogue/a_1/index.html'',
            ''https://books.toscrape.com/catalogue/b_2/index.html'',
            ''https://books.toscrape.com/catalogue/c_3/index.html'']
          = concat (map (\<lambda>page.
              map (\<lambda>href. catalogue_root @ replace href ''../'' [])
                (item_hrefs (find_all_product_pod page))) pages)"
    by (rule conjunct2)
  ultimately show ?thesis by simp
qed

subsection \<open>A listing of several pages\<close>

lemma collect_urls_all_extractable:
  "list_all (\<lambda>article. \<not> isl (article_url article)) articles
   \<Longrightarrow> map Inr (collect_urls articles) = map article_url articles"
proof (induction articles)
  case Nil
  then show ?case by simp
next
  case (Cons article articles)
  then obtain full_url where "article_url article = Inr full_url"
    by (cases "article_url article") auto
  with Cons show ?case by simp
qed

lemma crawl_loop_category_listing:
  "category_listing session_get html_parser urljoin w url pages w_end
   \<Longrightarrow> crawl_loop session_get html_parser urljoin w url urls
       = Some (Inr (urls @ concat (map (\<lambda>page. collect_urls (find_all_product_pod page)) pages)),
               w_end)"
proof (induction pages arbitrary: w url urls)
  case Nil
  then show ?case by simp
next
  case (Cons page pages)
  obtain got w1 where g: "session_get w url = (got, w1)" by (cases "session_get w url")
  with Cons.prems obtain response where r: "got = Inr response"
    by (cases got) auto
  from Cons.prems g r have ok: "raise_for_status response = Inr ()"
    and pg: "html_parser (text_utf8 response) = page"
    and ne: "find_all_product_pod page \<noteq> []"
    by auto
  note d = crawl_page_delivered [of session_get w url response w1 html_parser urljoin]
  show ?case
  proof (cases "pages = []")
    case True
    with Cons.prems g r have "find_next page = None" and "w1 = w_end" by auto
    with d g r ok pg ne have "crawl_page session_get html_parser urljoin w url
        = (Inr (collect_urls (find_all_product_pod page), None), w_end)"
      by simp
    then have "crawl_loop session_get html_parser urljoin w url urls
        = Some (Inr (urls @ collect_urls (find_all_product_pod page)), w_end)"
      by (rule crawl_loop_last)
    with True show ?thesis by simp
  next
    case False
    with Cons.prems g r obtain href where n: "find_next page = Some (Some (Some href))"
      and rest: "category_listing session_get html_parser urljoin w1 (urljoin url href) pages w_end"
      by (auto split: option.splits)
    from d g r ok pg ne n have "crawl_page session_get html_parser urljoin w url
        = (Inr (collect_urls (find_all_product_pod page), Some (urljoin url href)), w1)"
      by (simp add: and_then_def)
    then have "crawl_loop session_get html_parser urljoin w url urls
        = crawl_loop session_get html_parser urljoin w1 (urljoin url href)
            (urls @ collect_urls (find_all_product_pod page))"
      by (rule crawl_loop_next)
    with Cons.IH [OF rest, of "urls @ collect_urls (find_all_product_pod page)"]
    show ?thesis by simp
  qed
qed

lemma category_listing_extractable:
  "category_listing session_get html_parser urljoin w url pages w_end
   \<Longrightarrow> list_all (\<lambda>article. \<not> isl (article_url article)) (concat (map find_all_product_pod pages))"
proof (induction pages arbitrary: w url)
  case Nil
  then show ?case by simp
next
  case (Cons page pages)
  obtain got w1 where g: "session_get w url = (got, w1)" by (cases "session_get w url")
  with Cons.prems obtain response where r: "got = Inr response"
    by (cases got) auto
  from Cons.prems g r have here: "list_all (\<lambda>article. \<not> isl (article_url article)) (find_all_product_pod page)"
    by auto
  show ?case
  proof (cases "pages = []")
    case True
    with here show ?thesis by simp
  next
    case False
    with Cons.prems g r obtain href where
      "category_listing session_get html_parser urljoin w1 (urljoin url href) pages w_end"
      by (auto split: option.splits)
    from Cons.IH [OF this] here show ?thesis by simp
  qed
qed

lemma collect_urls_append:
  "collect_urls (xs @ ys) = collect_urls xs @ collect_urls ys"
  by (induction xs) (auto split: sum.splits)

lemma collect_urls_concat:
  "concat (map (\<lambda>page. collect_urls (find_all_product_pod page)) pages)
     = collect_urls (concat (map find_all_product_pod pages))"
  by (induction pages) (simp_all add: collect_urls_append)

text \<open>
  Claim C1. For a listing of P pages with N items in all (each page fetched with
  success and non-empty, each item link readable), \<open>fetch_category_urls\<close> returns a
  list of exactly N URLs: the URL of each item, in page order and then in the order of
  the page. The pages of the listing are those that the \<open>next\<close> links lead to, up to
  the first page without one.
\<close>

theorem crawl_returns_every_item_in_order:
  assumes "category_listing session_get html_parser urljoin w category_url pages w_end"
  shows "\<exists>urls. fetch_category_urls session_get html_parser urljoin w category_url
                  = Some (Inr urls, w_end)
           \<and> map Inr urls = map article_url (concat (map find_all_product_pod pages))
           \<and> length urls = sum_list (map (\<lambda>page. length (find_all_product_pod page)) pages)"
proof -
  let ?items = "concat (map find_all_product_pod pages)"
  let ?urls = "collect_urls ?items"
  from assms have "fetch_category_urls session_get html_parser urljoin w category_url
      = Some (Inr ?urls, w_end)"
    unfolding fetch_category_urls_def
    by (simp add: crawl_loop_category_listing collect_urls_concat)
  moreover from assms have m: "map Inr ?urls = map article_url ?items"
    by (intro collect_urls_all_extractable category_listing_extractable)
  moreover have "length ?urls = sum_list (map (\<lambda>page. length (find_all_product_pod page)) pages)"
  proof -
    from m have "length (map Inr ?urls :: (py_exception + string) list) = length (map article_url ?items)"
      by simp
    then have "length ?urls = length ?items" by simp
    then show ?thesis by (simp add: length_concat comp_def)
  qed
  ultimately show ?thesis by blast
qed

theorem crawl_returns_every_item_in_order_witness:
  "fetch_category_urls example_session example_parser (\<lambda>base href. href) 0 ''index.html''
     = Some (Inr [''https://books.toscrape.com/catalogue/a_1/index.html'',
                  ''https://books.toscrape.com/catalogue/b_2/index.html'',
                  ''https://books.toscrape.com/catalogue/c_3/index.html''], 2)"
proof -
  let ?p1 = "listing_soup [''../../../a_1/index.html'', ''../../../b_2/index.html''] (Some ''page-2.html'')"
  let ?p2 = "listing_soup [''../../../c_3/index.html''] None"
  have l: "category_listing example_session example_parser (\<lambda>base href. href) 0 ''index.html''
      [?p1, ?p2] 2"
    by code_simp
  have a: "map article_url (concat (map find_all_product_pod [?p1, ?p2]))
      = map Inr [''https://books.toscrape.com/catalogue/a_1/index.html'',
                 ''https://books.toscrape.com/catalogue/b_2/index.html'',
                 ''https://books.toscrape.com/catalogue/c_3/index.html'']"
    by code_simp
  from crawl_returns_every_item_in_order [OF l] obtain urls where
    f: "fetch_category_urls example_session example_parser (\<lambda>base href. href) 0 ''index.html''
          = Some (Inr urls, 2)"
    and m: "map Inr urls = map article_url (concat (map find_all_product_pod [?p1, ?p2]))"
    by blast
  from m a have "map (Inr :: string \<Rightarrow> py_exception + string) urls
      = map Inr [''https://books.toscrape.com/catalogue/a_1/index.html'',
                 ''https://books.toscrape.com/catalogue/b_2/index.html'',
                 ''https://books.toscrape.com/catalogue/c_3/index.html'']"
    by simp
  then have "urls = [''https://books.toscrape.com/catalogue/a_1/index.html'',
                 ''https://books.toscrape.com/catalogue/b_2/index.html'',
                 ''https://books.toscrape.com/catalogue/c_3/index.html'']"
    by (simp only: inj_map_eq_map [OF inj_Inr])
  with f show ?thesis by simp
qed

end
